theory Spec2Isabelle
  imports Complex_Main "HOL-Library.Sublist"
begin

section \<open>Campaign KPI analyzer: values, strings and the identity normalizer\<close>

text \<open>
  The program is \<^verbatim>\<open>src/campaign_kpi_app.py\<close>: \<^verbatim>\<open>norm_phone\<close> and \<^verbatim>\<open>compute_kpis\<close>, written
  over pandas data frames. A Python \<^verbatim>\<open>str\<close> is modelled as a \<^typ>\<open>string\<close> whose
  characters are the code points below 256, so that \<^verbatim>\<open>len\<close> is \<^const>\<open>length\<close>.
\<close>

subsection \<open>Cells of a data frame\<close>

text \<open>
  One cell of a column. \<open>FloatV\<close> carries the exact value of a float (rounding plays no
  part in the properties below); \<open>NaN\<close>, \<open>NoneV\<close> and \<open>NaT\<close> are the three missing values
  of pandas; \<open>Timestamp\<close> counts nanoseconds since the epoch and \<open>DateV\<close> counts days.
\<close>

datatype cell =
    Str string
  | IntV int
  | FloatV rat
  | NaN
  | NoneV
  | Timestamp int
  | NaT
  | DateV int

fun isna :: "cell \<Rightarrow> bool" where
  "isna NaN = True"
| "isna NoneV = True"
| "isna NaT = True"
| "isna _ = False"

subsection \<open>\<^verbatim>\<open>str(x)\<close>\<close>

definition digit_char :: "int \<Rightarrow> char" where
  "digit_char d = char_of (48 + d)"

text \<open>The decimal digits of a non-negative integer.\<close>

function str_digits :: "int \<Rightarrow> string" where
  "str_digits n =
     (if n < 10 then [digit_char n] else str_digits (n div 10) @ [digit_char (n mod 10)])"
  by pat_completeness auto
termination
  by (relation "measure nat") auto

declare str_digits.simps [simp del]

definition str_int :: "int \<Rightarrow> string" where
  "str_int i = (if i < 0 then CHR ''-'' # str_digits (- i) else str_digits i)"

text \<open>
  \<^verbatim>\<open>str(x)\<close>. The text of a float, a timestamp or a date is produced by library
  formatting code; it is the parameter \<open>fmt\<close>.
\<close>

fun py_str :: "(cell \<Rightarrow> string) \<Rightarrow> cell \<Rightarrow> string" where
  "py_str fmt (Str s) = s"
| "py_str fmt (IntV i) = str_int i"
| "py_str fmt NaN = ''nan''"
| "py_str fmt NoneV = ''None''"
| "py_str fmt NaT = ''NaT''"
| "py_str fmt c = fmt c"

subsection \<open>\<^verbatim>\<open>norm_phone\<close>\<close>

text \<open>
  \<^verbatim>\<open>ch.isdigit()\<close>: below code point 256 the characters that Unicode classifies as
  decimal digits or digits are \<open>0\<close> to \<open>9\<close> and the superscripts two, three and one
  (U+00B2, U+00B3, U+00B9).
\<close>

definition isdigit :: "char \<Rightarrow> bool" where
  "isdigit ch = (let n = (of_char ch :: int) in (48 \<le> n \<and> n \<le> 57) \<or> n = 178 \<or> n = 179 \<or> n = 185)"

text \<open>\<^verbatim>\<open>s.startswith(p)\<close>.\<close>

definition startswith :: "string \<Rightarrow> string \<Rightarrow> bool" where
  "startswith s p = (take (length p) s = p)"

text \<open>
  \<^verbatim>\<open>
  def norm_phone(x):
      s = "".join(ch for ch in str(x) if ch.isdigit())
      if s.startswith("974"): return s
      if len(s) == 8: return "974"+s
      return s
  \<close>
\<close>

definition norm_phone :: "(cell \<Rightarrow> string) \<Rightarrow> cell \<Rightarrow> string" where
  "norm_phone fmt x =
     (let s = filter isdigit (py_str fmt x) in
      if startswith s ''974'' then s
      else if length s = 8 then ''974'' @ s
      else s)"

section \<open>Data frames\<close>

subsection \<open>Exceptions\<close>

text \<open>
  The exceptions the modelled code can raise. \<open>PatternNotModelled\<close> is not a Python
  exception: it marks an item filter that uses regular-expression syntax beyond the
  fragment modelled below, about which the model says nothing.
\<close>

datatype error =
    KeyError string
  | AttributeError
  | TypeError
  | ZeroDivisionError
  | PatternNotModelled

definition bindE :: "error + 'a \<Rightarrow> ('a \<Rightarrow> error + 'b) \<Rightarrow> error + 'b" where
  "bindE m f = (case m of Inl e \<Rightarrow> Inl e | Inr x \<Rightarrow> f x)"

subsection \<open>Frames, columns and masks\<close>

text \<open>
  A \<^verbatim>\<open>Series\<close> is the list of its cells; a \<^verbatim>\<open>DataFrame\<close> is the list of its named columns,
  in column order. The row index is positional (label alignment never reorders rows in
  this program: every mask and every assigned column is computed from the frame it is
  applied to).
\<close>

type_synonym series = "cell list"

type_synonym frame = "(string \<times> series) list"

text \<open>\<^verbatim>\<open>df[c]\<close>: the column, or \<^verbatim>\<open>KeyError\<close>.\<close>

definition getitem :: "frame \<Rightarrow> string \<Rightarrow> error + series" where
  "getitem df c = (case map_of df c of None \<Rightarrow> Inl (KeyError c) | Some s \<Rightarrow> Inr s)"

text \<open>\<^verbatim>\<open>df[c] = s\<close>: replaces the column \<open>c\<close> where it stands, or adds it as the last column.\<close>

fun setitem :: "frame \<Rightarrow> string \<Rightarrow> series \<Rightarrow> frame" where
  "setitem [] c s = [(c, s)]"
| "setitem ((k, v) # df) c s = (if k = c then (c, s) # df else (k, v) # setitem df c s)"

text \<open>\<^verbatim>\<open>df[mask]\<close>: the rows at which the boolean mask is true, in every column.\<close>

definition take_mask :: "bool list \<Rightarrow> 'a list \<Rightarrow> 'a list" where
  "take_mask m xs = map snd (filter fst (zip m xs))"

definition loc_mask :: "frame \<Rightarrow> bool list \<Rightarrow> frame" where
  "loc_mask df m = map (\<lambda>(c, s). (c, take_mask m s)) df"

text \<open>
  \<^verbatim>\<open>s.nunique()\<close>: the number of distinct values, missing values not counted. Python
  compares an integer and a float of the same value equal, hence \<open>hkey\<close>.
\<close>

fun hkey :: "cell \<Rightarrow> cell" where
  "hkey (IntV i) = FloatV (of_int i)"
| "hkey c = c"

definition nunique :: "series \<Rightarrow> nat" where
  "nunique s = length (remdups (map hkey (filter (\<lambda>c. \<not> isna c) s)))"

text \<open>\<^verbatim>\<open>df[[c]].drop_duplicates()\<close> on one column: the first occurrence of each value is kept.\<close>

primrec drop_dups_from :: "'a list \<Rightarrow> 'a list \<Rightarrow> 'a list" where
  "drop_dups_from seen [] = []"
| "drop_dups_from seen (x # xs) =
     (if x \<in> set seen then drop_dups_from seen xs else x # drop_dups_from (x # seen) xs)"

definition drop_duplicates :: "'a list \<Rightarrow> 'a list" where
  "drop_duplicates xs = drop_dups_from [] xs"

text \<open>
  \<^verbatim>\<open>left.merge(right, on=key, how="inner")\<close> where \<open>right\<close> has the key column only, with
  cells \<open>rkeys\<close>: every left row is repeated once for each right row of the same key, in
  the order of the left rows, and no column is added.
\<close>

definition merge_rows :: "series \<Rightarrow> series \<Rightarrow> 'a list \<Rightarrow> 'a list" where
  "merge_rows lkeys rkeys xs =
     concat (map (\<lambda>(k, v). replicate (count_list rkeys k) v) (zip lkeys xs))"

definition merge_inner :: "frame \<Rightarrow> string \<Rightarrow> series \<Rightarrow> error + frame" where
  "merge_inner left key rkeys =
     bindE (getitem left key) (\<lambda>lkeys.
       Inr (map (\<lambda>(c, s). (c, merge_rows lkeys rkeys s)) left))"

subsection \<open>Numbers\<close>

fun is_num :: "cell \<Rightarrow> bool" where
  "is_num (IntV i) = True"
| "is_num (FloatV r) = True"
| "is_num _ = False"

fun num_val :: "cell \<Rightarrow> rat" where
  "num_val (IntV i) = of_int i"
| "num_val (FloatV r) = r"
| "num_val _ = 0"

text \<open>
  \<^verbatim>\<open>s.sum(min_count=n)\<close>: missing cells are skipped; with fewer than \<open>n\<close> cells left the
  result is NaN. A column to be summed that holds a cell which is neither a number nor
  missing is outside the tables this program is meant for (pandas raises on it or
  concatenates strings, depending on the column's dtype); the model raises \<^verbatim>\<open>TypeError\<close>.
\<close>

definition numeric_series :: "series \<Rightarrow> bool" where
  "numeric_series s = list_all (\<lambda>c. isna c \<or> is_num c) s"

definition sum_skipna :: "series \<Rightarrow> rat" where
  "sum_skipna s = sum_list (map num_val (filter (\<lambda>c. \<not> isna c) s))"

definition series_sum :: "nat \<Rightarrow> series \<Rightarrow> error + cell" where
  "series_sum min_count s =
     (if \<not> numeric_series s then Inl TypeError
      else if length (filter (\<lambda>c. \<not> isna c) s) < min_count then Inr NaN
      else Inr (FloatV (sum_skipna s)))"

text \<open>
  Truth value of a Python scalar, as \<^verbatim>\<open>or\<close> and \<^verbatim>\<open>if\<close> take it: a number is false exactly
  when it is zero, and NaN is not zero.
\<close>

fun truthy :: "cell \<Rightarrow> bool" where
  "truthy (IntV i) = (i \<noteq> 0)"
| "truthy (FloatV r) = (r \<noteq> 0)"
| "truthy (Str s) = (s \<noteq> [])"
| "truthy NoneV = False"
| "truthy _ = True"

definition py_or :: "cell \<Rightarrow> cell \<Rightarrow> cell" where
  "py_or a b = (if truthy a then a else b)"

text \<open>
  \<^verbatim>\<open>a / n\<close> for a number or NaN \<open>a\<close> and a Python integer \<open>n\<close>. Division by zero is the
  failing branch (for a numpy float it is a warning and an infinity, which the model does
  not have; \<^verbatim>\<open>compute_kpis\<close> never divides by zero, as is proved below).
\<close>

definition truediv :: "cell \<Rightarrow> nat \<Rightarrow> error + cell" where
  "truediv a n =
     (if n = 0 then Inl ZeroDivisionError
      else if a = NaN then Inr NaN
      else if is_num a then Inr (FloatV (num_val a / of_nat n))
      else Inl TypeError)"

text \<open>\<^verbatim>\<open>a / b * 100\<close> on Python integers.\<close>

definition ratio_pct :: "nat \<Rightarrow> nat \<Rightarrow> error + cell" where
  "ratio_pct a b =
     (if b = 0 then Inl ZeroDivisionError else Inr (FloatV (of_nat a / of_nat b * 100)))"

subsection \<open>\<^verbatim>\<open>Series.str.contains(pat, case=False, na=False)\<close>\<close>

text \<open>
  The call leaves \<^verbatim>\<open>regex\<close> at its default \<^verbatim>\<open>True\<close>: \<open>pat\<close> is compiled as a regular
  expression with \<^verbatim>\<open>re.IGNORECASE\<close> and searched for in every string cell; a cell that is
  not a string gives a missing result, which \<^verbatim>\<open>na=False\<close> turns into \<^verbatim>\<open>False\<close>.

  The fragment of the pattern syntax that is modelled: a character that is not special
  stands for itself, and \<^verbatim>\<open>.\<close> stands for any character but the newline. A pattern with
  another special character is \<open>PatternNotModelled\<close>.
\<close>

datatype atom = Lit char | AnyChar

definition re_special :: "char \<Rightarrow> bool" where
  "re_special c = (c \<in> set ''.^$*+?{}[]|()'' \<or> c = CHR 0x5C)"

fun re_compile :: "string \<Rightarrow> error + atom list" where
  "re_compile [] = Inr []"
| "re_compile (c # cs) =
     (if c = CHR ''.'' then bindE (re_compile cs) (\<lambda>as. Inr (AnyChar # as))
      else if re_special c then Inl PatternNotModelled
      else bindE (re_compile cs) (\<lambda>as. Inr (Lit c # as)))"

text \<open>
  The lower-case mapping of the code points below 256: \<open>A\<close> to \<open>Z\<close>, and U+00C0 to U+00DE
  but the multiplication sign U+00D7. Under \<^verbatim>\<open>re.IGNORECASE\<close> two such characters match
  when their lower-case forms are equal.
\<close>

definition lower_char :: "char \<Rightarrow> char" where
  "lower_char c =
     (let n = (of_char c :: int) in
      if (65 \<le> n \<and> n \<le> 90) \<or> (192 \<le> n \<and> n \<le> 222 \<and> n \<noteq> 215) then char_of (n + 32) else c)"

fun atom_matches :: "atom \<Rightarrow> char \<Rightarrow> bool" where
  "atom_matches (Lit p) c = (lower_char c = lower_char p)"
| "atom_matches AnyChar c = (c \<noteq> CHR 0x0A)"

fun match_here :: "atom list \<Rightarrow> string \<Rightarrow> bool" where
  "match_here [] s = True"
| "match_here (a # as) [] = False"
| "match_here (a # as) (c # cs) = (atom_matches a c \<and> match_here as cs)"

fun re_search :: "atom list \<Rightarrow> string \<Rightarrow> bool" where
  "re_search as [] = match_here as []"
| "re_search as (c # cs) = (match_here as (c # cs) \<or> re_search as cs)"

definition str_contains :: "string \<Rightarrow> series \<Rightarrow> error + bool list" where
  "str_contains pat s =
     bindE (re_compile pat) (\<lambda>as.
       Inr (map (\<lambda>c. case c of Str v \<Rightarrow> re_search as v | _ \<Rightarrow> False) s))"

text \<open>
  What the specification asks of the item filter, in its own words: the item name
  contains the filter string as a substring, compared case-insensitively.
\<close>

definition contains_ci :: "string \<Rightarrow> string \<Rightarrow> bool" where
  "contains_ci sub s = sublist (map lower_char sub) (map lower_char s)"

subsection \<open>Dates\<close>

definition ns_per_day :: int where
  "ns_per_day = 86400000000000"

text \<open>
  \<^verbatim>\<open>pd.to_datetime(s, errors="coerce")\<close>. The parser is library code and is the parameter
  \<open>parse\<close>: given the column (from which pandas may infer a format) and a cell, it
  returns the timestamp or \<open>None\<close> when the cell cannot be parsed. Coercion turns the
  latter into \<open>NaT\<close>.
\<close>

definition to_datetime :: "(series \<Rightarrow> cell \<Rightarrow> int option) \<Rightarrow> series \<Rightarrow> series" where
  "to_datetime parse s = map (\<lambda>c. case parse s c of None \<Rightarrow> NaT | Some t \<Rightarrow> Timestamp t) s"

text \<open>
  A date bound as the caller passes it (a \<^verbatim>\<open>datetime.date\<close> from the date picker, or a
  \<^verbatim>\<open>datetime\<close>), and \<^verbatim>\<open>pd.to_datetime\<close> of it: a date becomes its midnight. Both kinds
  of object are always true in \<^verbatim>\<open>if start:\<close>.
\<close>

datatype bound = BDate int | BDatetime int

fun to_datetime_scalar :: "bound \<Rightarrow> int" where
  "to_datetime_scalar (BDate d) = d * ns_per_day"
| "to_datetime_scalar (BDatetime t) = t"

text \<open>\<^verbatim>\<open>s >= t\<close> and \<^verbatim>\<open>s <= t\<close> on a datetime column: a comparison with \<open>NaT\<close> is false.\<close>

definition ge_mask :: "series \<Rightarrow> int \<Rightarrow> bool list" where
  "ge_mask s b = map (\<lambda>c. case c of Timestamp t \<Rightarrow> b \<le> t | _ \<Rightarrow> False) s"

definition le_mask :: "series \<Rightarrow> int \<Rightarrow> bool list" where
  "le_mask s b = map (\<lambda>c. case c of Timestamp t \<Rightarrow> t \<le> b | _ \<Rightarrow> False) s"

text \<open>\<^verbatim>\<open>s.dt.date\<close>: defined on a datetime column only; the calendar day of each timestamp.\<close>

fun is_datetime :: "cell \<Rightarrow> bool" where
  "is_datetime (Timestamp t) = True"
| "is_datetime NaT = True"
| "is_datetime _ = False"

fun date_of :: "cell \<Rightarrow> cell" where
  "date_of (Timestamp t) = DateV (t div ns_per_day)"
| "date_of c = NaT"

definition dt_date :: "series \<Rightarrow> error + series" where
  "dt_date s = (if list_all is_datetime s then Inr (map date_of s) else Inl AttributeError)"

subsection \<open>\<^verbatim>\<open>str.strip()\<close>\<close>

definition isspace :: "char \<Rightarrow> bool" where
  "isspace c =
     (let n = (of_char c :: int) in
      (9 \<le> n \<and> n \<le> 13) \<or> (28 \<le> n \<and> n \<le> 32) \<or> n = 133 \<or> n = 160)"

definition strip :: "string \<Rightarrow> string" where
  "strip s = rev (dropWhile isspace (rev (dropWhile isspace s)))"

section \<open>\<^verbatim>\<open>compute_kpis\<close>\<close>

text \<open>
  The function, stage by stage, on frames as values (\<^verbatim>\<open>copy()\<close> is the identity here;
  the version on a store of mutable frames follows). Its parameters \<^verbatim>\<open>start\<close> and \<^verbatim>\<open>end\<close>
  are \<open>start_date\<close> and \<open>end_date\<close>.
\<close>

subsection \<open>Normalized phones\<close>

text \<open>\<^verbatim>\<open>df["_phone"] = df["phone_number"].map(norm_phone)\<close>\<close>

definition add_phone :: "(cell \<Rightarrow> string) \<Rightarrow> frame \<Rightarrow> error + frame" where
  "add_phone fmt df =
     bindE (getitem df ''phone_number'') (\<lambda>col.
       Inr (setitem df ''_phone'' (map (\<lambda>x. Str (norm_phone fmt x)) col)))"

subsection \<open>Filter stage\<close>

text \<open>
  \<^verbatim>\<open>
  if item_filter:
      buyers = buyers[buyers["item_name"].str.contains(item_filter, case=False, na=False)]
  \<close>
  \<^verbatim>\<open>None\<close> and the empty string are false.
\<close>

definition item_filter_stage :: "string option \<Rightarrow> frame \<Rightarrow> error + frame" where
  "item_filter_stage item_filter buyers =
     (case item_filter of
        None \<Rightarrow> Inr buyers
      | Some pat \<Rightarrow>
          if pat = [] then Inr buyers
          else bindE (getitem buyers ''item_name'') (\<lambda>col.
               bindE (str_contains pat col) (\<lambda>m.
                 Inr (loc_mask buyers m))))"

text \<open>\<^verbatim>\<open>buyers["created_at"] = pd.to_datetime(buyers["created_at"], errors="coerce")\<close>\<close>

definition parse_created_at :: "(series \<Rightarrow> cell \<Rightarrow> int option) \<Rightarrow> frame \<Rightarrow> error + frame" where
  "parse_created_at parse buyers =
     bindE (getitem buyers ''created_at'') (\<lambda>col.
       Inr (setitem buyers ''created_at'' (to_datetime parse col)))"

text \<open>
  \<^verbatim>\<open>
  if start: buyers = buyers[buyers["created_at"] >= pd.to_datetime(start)]
  if end:   buyers = buyers[buyers["created_at"] <= pd.to_datetime(end)]
  \<close>
\<close>

definition start_stage :: "bound option \<Rightarrow> frame \<Rightarrow> error + frame" where
  "start_stage start_date buyers =
     (case start_date of
        None \<Rightarrow> Inr buyers
      | Some b \<Rightarrow>
          bindE (getitem buyers ''created_at'') (\<lambda>col.
            Inr (loc_mask buyers (ge_mask col (to_datetime_scalar b)))))"

definition end_stage :: "bound option \<Rightarrow> frame \<Rightarrow> error + frame" where
  "end_stage end_date buyers =
     (case end_date of
        None \<Rightarrow> Inr buyers
      | Some b \<Rightarrow>
          bindE (getitem buyers ''created_at'') (\<lambda>col.
            Inr (loc_mask buyers (le_mask col (to_datetime_scalar b)))))"

definition date_window ::
  "(series \<Rightarrow> cell \<Rightarrow> int option) \<Rightarrow> bound option \<Rightarrow> bound option \<Rightarrow> frame \<Rightarrow> error + frame" where
  "date_window parse start_date end_date buyers =
     bindE (parse_created_at parse buyers) (\<lambda>buyers.
     bindE (start_stage start_date buyers) (\<lambda>buyers.
       end_stage end_date buyers))"

text \<open>
  What the specification asks of the date window, in its own words: the parsed
  \<^verbatim>\<open>created_at\<close> is not null, not before the start bound and not after the end bound, each
  bound inclusive and each optional.
\<close>

definition in_window :: "bound option \<Rightarrow> bound option \<Rightarrow> cell \<Rightarrow> bool" where
  "in_window start_date end_date c =
     (case c of
        Timestamp t \<Rightarrow>
          (case start_date of None \<Rightarrow> True | Some b \<Rightarrow> to_datetime_scalar b \<le> t)
          \<and> (case end_date of None \<Rightarrow> True | Some b \<Rightarrow> t \<le> to_datetime_scalar b)
      | _ \<Rightarrow> False)"

subsection \<open>Matcher\<close>

text \<open>\<^verbatim>\<open>conv = buyers.merge(reach[["_phone"]].drop_duplicates(), on="_phone", how="inner")\<close>\<close>

definition match_conversions :: "frame \<Rightarrow> frame \<Rightarrow> error + frame" where
  "match_conversions buyers reach =
     bindE (getitem reach ''_phone'') (\<lambda>reach_phone.
       merge_inner buyers ''_phone'' (drop_duplicates reach_phone))"

subsection \<open>Aggregator\<close>

text \<open>The rows of a column at which the key column holds \<open>k\<close>: one group of a \<^verbatim>\<open>groupby\<close>.\<close>

definition rows_where :: "series \<Rightarrow> cell \<Rightarrow> 'a list \<Rightarrow> 'a list" where
  "rows_where keys k xs = take_mask (map (\<lambda>c. c = k) keys) xs"

text \<open>
  \<^verbatim>\<open>
  rb = conv.groupby("_phone")["order_id"].nunique()
  repeat_count = int((rb > 1).sum())
  \<close>
  A \<^verbatim>\<open>groupby\<close> drops the rows whose key is missing. The groups are listed here in the order
  in which their keys appear (pandas sorts them); only their number is used.
\<close>

definition group_keys :: "series \<Rightarrow> series" where
  "group_keys keys = remdups (filter (\<lambda>c. \<not> isna c) keys)"

definition groupby_nunique :: "series \<Rightarrow> series \<Rightarrow> (cell \<times> nat) list" where
  "groupby_nunique keys vals = map (\<lambda>k. (k, nunique (rows_where keys k vals))) (group_keys keys)"

definition count_repeat :: "series \<Rightarrow> series \<Rightarrow> nat" where
  "count_repeat phones orders = length (filter (\<lambda>(k, n). 1 < n) (groupby_nunique phones orders))"

text \<open>
  \<^verbatim>\<open>
  by_day = (conv.assign(day=conv["created_at"].dt.date)
                  .groupby("day", as_index=False)
                  .agg(orders=("order_id","nunique"),
                       buyers=(" _phone".strip(),"nunique"),
                       revenue=("total_spent","sum")))
  \<close>
  The groups are the days present, sorted ascending; rows whose day is \<open>NaT\<close> belong to no
  group. The aggregation \<^verbatim>\<open>"sum"\<close> has no \<^verbatim>\<open>min_count\<close>: a group of missing values sums to 0.
\<close>

definition day_keys :: "series \<Rightarrow> int list" where
  "day_keys days = sort (remdups (concat (map (\<lambda>c. case c of DateV d \<Rightarrow> [d] | _ \<Rightarrow> []) days)))"

definition agg_by_day :: "series \<Rightarrow> series \<Rightarrow> series \<Rightarrow> series \<Rightarrow> frame" where
  "agg_by_day keys orders phones spent =
     (let ks = day_keys keys in
      [(''day'', map DateV ks),
       (''orders'', map (\<lambda>d. IntV (int (nunique (rows_where keys (DateV d) orders)))) ks),
       (''buyers'', map (\<lambda>d. IntV (int (nunique (rows_where keys (DateV d) phones)))) ks),
       (''revenue'', map (\<lambda>d. FloatV (sum_skipna (rows_where keys (DateV d) spent))) ks)])"

definition by_day_frame :: "frame \<Rightarrow> error + frame" where
  "by_day_frame conv =
     bindE (getitem conv ''created_at'') (\<lambda>created.
     bindE (dt_date created) (\<lambda>day.
     (let df = setitem conv ''day'' day in
     bindE (getitem df ''day'') (\<lambda>keys.
     bindE (getitem df ''order_id'') (\<lambda>orders.
     bindE (getitem df (strip '' _phone'')) (\<lambda>phones.
     bindE (getitem df ''total_spent'') (\<lambda>spent.
       if \<not> numeric_series spent then Inl TypeError
       else Inr (agg_by_day keys orders phones spent))))))))"

text \<open>
  The values that the dictionary \<^verbatim>\<open>kpis\<close> formats, under the names of the local variables.
  (The formatting itself, \<^verbatim>\<open>f"{conv_rate:.2f}"\<close> and the like, renders floating-point
  numbers and is not modelled.)
\<close>

record kpis =
  reach_u :: nat
  conv_u :: nat
  conv_rate :: cell
  total_revenue :: cell
  total_orders :: nat
  total_units :: cell
  aov :: cell
  repeat_count :: nat
  repeat_rate :: cell

text \<open>
  \<^verbatim>\<open>
  conv_u = conv["_phone"].nunique()
  conv_rate = (conv_u / reach_u * 100) if reach_u else 0
  total_revenue = conv["total_spent"].sum(min_count=1) or 0
  total_orders  = conv["order_id"].nunique()
  total_units   = conv["quantity"].sum(min_count=1) or 0
  aov = (total_revenue / total_orders) if total_orders else 0
  rb = conv.groupby("_phone")["order_id"].nunique()
  repeat_count = int((rb > 1).sum())
  repeat_rate  = (repeat_count / conv_u * 100) if conv_u else 0
  \<close>
\<close>

definition aggregate :: "frame \<Rightarrow> nat \<Rightarrow> error + kpis" where
  "aggregate conv reach_n =
     bindE (getitem conv ''_phone'') (\<lambda>conv_phone.
     (let conv_n = nunique conv_phone in
     bindE (if reach_n \<noteq> 0 then ratio_pct conv_n reach_n else Inr (IntV 0)) (\<lambda>rate.
     bindE (getitem conv ''total_spent'') (\<lambda>spent.
     bindE (series_sum 1 spent) (\<lambda>spent_sum.
     (let revenue = py_or spent_sum (IntV 0) in
     bindE (getitem conv ''order_id'') (\<lambda>orders.
     (let orders_n = nunique orders in
     bindE (getitem conv ''quantity'') (\<lambda>quantity.
     bindE (series_sum 1 quantity) (\<lambda>quantity_sum.
     (let units = py_or quantity_sum (IntV 0) in
     bindE (if orders_n \<noteq> 0 then truediv revenue orders_n else Inr (IntV 0)) (\<lambda>order_value.
     (let repeat_n = count_repeat conv_phone orders in
     bindE (if conv_n \<noteq> 0 then ratio_pct repeat_n conv_n else Inr (IntV 0)) (\<lambda>rrate.
       Inr \<lparr>reach_u = reach_n, conv_u = conv_n, conv_rate = rate,
            total_revenue = revenue, total_orders = orders_n, total_units = units,
            aov = order_value, repeat_count = repeat_n, repeat_rate = rrate\<rparr>))))))))))))))"

subsection \<open>The whole function\<close>

text \<open>
  The part of the function after the filters, which updates no frame.
  \<^verbatim>\<open>reach_u = reach["_phone"].nunique()\<close> is taken on the unfiltered reach table.
  (\<^verbatim>\<open>buyers_u = buyers["_phone"].nunique()\<close> is computed by the source and never used.)
  The result is the triple \<^verbatim>\<open>kpis, conv, by_day\<close>.
\<close>

definition match_and_aggregate :: "frame \<Rightarrow> frame \<Rightarrow> error + (kpis \<times> frame \<times> frame)" where
  "match_and_aggregate buyers reach =
     bindE (getitem reach ''_phone'') (\<lambda>reach_phone.
     bindE (getitem buyers ''_phone'') (\<lambda>buyers_phone.
     bindE (match_conversions buyers reach) (\<lambda>conv.
     bindE (aggregate conv (nunique reach_phone)) (\<lambda>k.
     bindE (by_day_frame conv) (\<lambda>by_day.
       Inr (k, conv, by_day))))))"

definition compute_kpis ::
  "(cell \<Rightarrow> string) \<Rightarrow> (series \<Rightarrow> cell \<Rightarrow> int option) \<Rightarrow> frame \<Rightarrow> frame \<Rightarrow>
   bound option \<Rightarrow> bound option \<Rightarrow> string option \<Rightarrow> error + (kpis \<times> frame \<times> frame)" where
  "compute_kpis fmt parse buyers reach start_date end_date item_filter =
     bindE (add_phone fmt buyers) (\<lambda>buyers.
     bindE (add_phone fmt reach) (\<lambda>reach.
     bindE (item_filter_stage item_filter buyers) (\<lambda>buyers.
     bindE (date_window parse start_date end_date buyers) (\<lambda>buyers.
       match_and_aggregate buyers reach))))"

section \<open>\<^verbatim>\<open>compute_kpis\<close> on a store of mutable frames\<close>

text \<open>
  A \<^verbatim>\<open>DataFrame\<close> is a mutable object and a Python variable holds a reference to it. The
  store lists the frames allocated so far; a reference is a position in it. A new object
  is appended, \<^verbatim>\<open>df[c] = s\<close> updates the object in place, and every other operation of
  the program (\<^verbatim>\<open>copy\<close>, \<^verbatim>\<open>df[mask]\<close>, \<^verbatim>\<open>merge\<close>, \<^verbatim>\<open>assign\<close>, \<^verbatim>\<open>groupby\<close>) builds a new object.
  A \<^verbatim>\<open>Series\<close> is never updated by the program and stays a value. A reference that the
  program holds is a position of the store: reading outside the store is not modelled.
\<close>

type_synonym heap = "frame list"

type_synonym 'a prog = "heap \<Rightarrow> (error + 'a) \<times> heap"

definition returnH :: "'a \<Rightarrow> 'a prog" where
  "returnH x h = (Inr x, h)"

definition liftE :: "error + 'a \<Rightarrow> 'a prog" where
  "liftE r h = (r, h)"

definition bindH :: "'a prog \<Rightarrow> ('a \<Rightarrow> 'b prog) \<Rightarrow> 'b prog" where
  "bindH m f h = (case m h of (Inl e, h') \<Rightarrow> (Inl e, h') | (Inr x, h') \<Rightarrow> f x h')"

definition df_new :: "frame \<Rightarrow> nat prog" where
  "df_new f h = (Inr (length h), h @ [f])"

definition df_read :: "nat \<Rightarrow> frame prog" where
  "df_read r h = (Inr (h ! r), h)"

text \<open>\<^verbatim>\<open>df.copy()\<close>\<close>

definition df_copy :: "nat \<Rightarrow> nat prog" where
  "df_copy r = bindH (df_read r) df_new"

text \<open>\<^verbatim>\<open>df[c]\<close>\<close>

definition df_getitem :: "nat \<Rightarrow> string \<Rightarrow> series prog" where
  "df_getitem r c h = (getitem (h ! r) c, h)"

text \<open>\<^verbatim>\<open>df[c] = s\<close>, in place.\<close>

definition df_setitem :: "nat \<Rightarrow> string \<Rightarrow> series \<Rightarrow> unit prog" where
  "df_setitem r c s h = (Inr (), h[r := setitem (h ! r) c s])"

text \<open>\<^verbatim>\<open>df[mask]\<close>\<close>

definition df_loc :: "nat \<Rightarrow> bool list \<Rightarrow> nat prog" where
  "df_loc r m = bindH (df_read r) (\<lambda>f. df_new (loc_mask f m))"

text \<open>
  \<^verbatim>\<open>
  def compute_kpis(buyers, reach, start=None, end=None, item_filter=None):
      buyers = buyers.copy()
      reach  = reach.copy()
      buyers["_phone"] = buyers["phone_number"].map(norm_phone)
      reach["_phone"]  = reach["phone_number"].map(norm_phone)
      if item_filter:
          buyers = buyers[buyers["item_name"].str.contains(item_filter, case=False, na=False)]
      buyers["created_at"] = pd.to_datetime(buyers["created_at"], errors="coerce")
      if start: buyers = buyers[buyers["created_at"] >= pd.to_datetime(start)]
      if end:   buyers = buyers[buyers["created_at"] <= pd.to_datetime(end)]
      ...
      return kpis, conv, by_day
  \<close>
  The arguments \<open>buyers\<close> and \<open>reach\<close> are the caller's references; the local variables of
  the same names are rebound as in the source. The rest of the function updates no
  frame: it is \<open>match_conversions\<close>, \<open>aggregate\<close> and \<open>by_day_frame\<close> on the frames read from
  the store (\<open>match_and_aggregate\<close>), and its two result frames are new objects.
\<close>

definition compute_kpis_heap ::
  "(cell \<Rightarrow> string) \<Rightarrow> (series \<Rightarrow> cell \<Rightarrow> int option) \<Rightarrow> nat \<Rightarrow> nat \<Rightarrow>
   bound option \<Rightarrow> bound option \<Rightarrow> string option \<Rightarrow> (kpis \<times> nat \<times> nat) prog" where
  "compute_kpis_heap fmt parse buyers reach start_date end_date item_filter =
     bindH (df_copy buyers) (\<lambda>buyers.
     bindH (df_copy reach) (\<lambda>reach.
     bindH (df_getitem buyers ''phone_number'') (\<lambda>col.
     bindH (df_setitem buyers ''_phone'' (map (\<lambda>x. Str (norm_phone fmt x)) col)) (\<lambda>_.
     bindH (df_getitem reach ''phone_number'') (\<lambda>col.
     bindH (df_setitem reach ''_phone'' (map (\<lambda>x. Str (norm_phone fmt x)) col)) (\<lambda>_.
     bindH (case item_filter of
              None \<Rightarrow> returnH buyers
            | Some pat \<Rightarrow>
                if pat = [] then returnH buyers
                else bindH (df_getitem buyers ''item_name'') (\<lambda>col.
                     bindH (liftE (str_contains pat col)) (\<lambda>m.
                       df_loc buyers m))) (\<lambda>buyers.
     bindH (df_getitem buyers ''created_at'') (\<lambda>col.
     bindH (df_setitem buyers ''created_at'' (to_datetime parse col)) (\<lambda>_.
     bindH (case start_date of
              None \<Rightarrow> returnH buyers
            | Some b \<Rightarrow>
                bindH (df_getitem buyers ''created_at'') (\<lambda>col.
                  df_loc buyers (ge_mask col (to_datetime_scalar b)))) (\<lambda>buyers.
     bindH (case end_date of
              None \<Rightarrow> returnH buyers
            | Some b \<Rightarrow>
                bindH (df_getitem buyers ''created_at'') (\<lambda>col.
                  df_loc buyers (le_mask col (to_datetime_scalar b)))) (\<lambda>buyers.
     bindH (df_read buyers) (\<lambda>buyers_frame.
     bindH (df_read reach) (\<lambda>reach_frame.
     bindH (liftE (match_and_aggregate buyers_frame reach_frame)) (\<lambda>(k, conv, by_day).
     bindH (df_new conv) (\<lambda>conv_ref.
     bindH (df_new by_day) (\<lambda>by_day_ref.
       returnH (k, conv_ref, by_day_ref)))))))))))))))))"

text \<open>
  The frame condition of a program, for the proofs: started in a store of at least \<open>n\<close>
  objects it leaves the first \<open>n\<close> as they are, and its result satisfies \<open>Q\<close>.
\<close>

definition frame_rule :: "nat \<Rightarrow> 'a prog \<Rightarrow> ('a \<Rightarrow> bool) \<Rightarrow> bool" where
  "frame_rule n m Q =
     (\<forall>h. n \<le> length h \<longrightarrow>
        (case m h of (r, h') \<Rightarrow>
           n \<le> length h' \<and> take n h' = take n h \<and> (case r of Inl e \<Rightarrow> True | Inr x \<Rightarrow> Q x)))"

section \<open>Example tables\<close>

text \<open>
  A formatter for the examples below, whose cells are strings, integers and missing
  values: it is never consulted on them.
\<close>

definition plain_fmt :: "cell \<Rightarrow> string" where
  "plain_fmt c = []"

text \<open>
  A parser for the examples: it reads the ISO dates \<^verbatim>\<open>YYYY-MM-DD\<close> of the proleptic
  Gregorian calendar as their midnight, and nothing else.
\<close>

definition days_from_civil :: "int \<Rightarrow> int \<Rightarrow> int \<Rightarrow> int" where
  "days_from_civil y m d =
     (let y' = (if m \<le> 2 then y - 1 else y);
          era = y' div 400;
          yoe = y' - era * 400;
          doy = (153 * (if m > 2 then m - 3 else m + 9) + 2) div 5 + d - 1;
          doe = yoe * 365 + yoe div 4 - yoe div 100 + doy
      in era * 146097 + doe - 719468)"

definition days_in_month :: "int \<Rightarrow> int \<Rightarrow> int" where
  "days_in_month y m =
     (if m = 2 then (if y mod 4 = 0 \<and> (y mod 400 = 0 \<or> y mod 100 \<noteq> 0) then 29 else 28)
      else if m = 4 \<or> m = 6 \<or> m = 9 \<or> m = 11 then 30 else 31)"

definition ascii_digit :: "char \<Rightarrow> bool" where
  "ascii_digit c = (48 \<le> (of_char c :: int) \<and> (of_char c :: int) \<le> 57)"

definition int_of_digits :: "string \<Rightarrow> int" where
  "int_of_digits s = foldl (\<lambda>a c. 10 * a + (of_char c - 48)) 0 s"

definition iso_date :: "string \<Rightarrow> int option" where
  "iso_date s =
     (if length s = 10 \<and> s ! 4 = CHR ''-'' \<and> s ! 7 = CHR ''-''
         \<and> list_all ascii_digit (take 4 s @ take 2 (drop 5 s) @ drop 8 s)
      then (let y = int_of_digits (take 4 s);
                m = int_of_digits (take 2 (drop 5 s));
                d = int_of_digits (drop 8 s)
            in if 1 \<le> m \<and> m \<le> 12 \<and> 1 \<le> d \<and> d \<le> days_in_month y m
               then Some (days_from_civil y m d * ns_per_day) else None)
      else None)"

definition iso_parse :: "series \<Rightarrow> cell \<Rightarrow> int option" where
  "iso_parse col c = (case c of Str s \<Rightarrow> iso_date s | Timestamp t \<Rightarrow> Some t | _ \<Rightarrow> None)"

text \<open>
  A reach table of five contacts with four distinct identities (the missing number
  normalizes to the empty string), and a buyers table of five order lines: a repeat buyer
  (orders 1 and 2), an unparseable date (order 3), a buyer outside the reach (order 4)
  and a line with missing item, quantity and amount (order 5).
\<close>

definition reach_ex :: frame where
  "reach_ex =
     [(''phone_number'',
        [Str ''97412345678'', Str ''+974 5550 0001'', IntV 55500002, Str ''5550-0001'', NaN])]"

definition buyers_ex :: frame where
  "buyers_ex =
     [(''phone_number'', [Str ''12345678'', IntV 12345678, Str ''55500001'', Str ''55500009'', Str ''55500002'']),
      (''order_id'', [IntV 1, IntV 2, IntV 3, IntV 4, IntV 5]),
      (''created_at'', [Str ''2024-01-02'', Str ''2024-01-01'', Str ''not-a-date'', Str ''2024-01-02'', Str ''2024-01-02'']),
      (''item_name'', [Str ''WidgetA'', Str ''WidgetB'', Str ''Widgeta XL'', Str ''WidgetA'', NaN]),
      (''quantity'', [IntV 2, IntV 1, IntV 1, IntV 1, NaN]),
      (''total_spent'', [IntV 100, FloatV (101 / 2), IntV 30, IntV 70, NaN])]"

text \<open>Scenario 2 of the specification: one buyer, whose identity is not in the reach.\<close>

definition buyers_unmatched :: frame where
  "buyers_unmatched =
     [(''phone_number'', [Str ''55500009'']),
      (''order_id'', [IntV 1]),
      (''created_at'', [Str ''2024-01-01'']),
      (''item_name'', [Str ''WidgetA'']),
      (''quantity'', [IntV 2]),
      (''total_spent'', [IntV 100])]"

text \<open>The results of \<^verbatim>\<open>compute_kpis(buyers_ex, reach_ex)\<close>, without filters.\<close>

definition kpis_ex :: kpis where
  "kpis_ex =
     \<lparr>reach_u = 4, conv_u = 3, conv_rate = FloatV 75,
      total_revenue = FloatV (361 / 2), total_orders = 4, total_units = FloatV 4,
      aov = FloatV (361 / 8), repeat_count = 1, repeat_rate = FloatV (100 / 3)\<rparr>"

definition conv_ex :: frame where
  "conv_ex =
     [(''phone_number'', [Str ''12345678'', IntV 12345678, Str ''55500001'', Str ''55500002'']),
      (''order_id'', [IntV 1, IntV 2, IntV 3, IntV 5]),
      (''created_at'',
         [Timestamp 1704153600000000000, Timestamp 1704067200000000000, NaT,
          Timestamp 1704153600000000000]),
      (''item_name'', [Str ''WidgetA'', Str ''WidgetB'', Str ''Widgeta XL'', NaN]),
      (''quantity'', [IntV 2, IntV 1, IntV 1, NaN]),
      (''total_spent'', [IntV 100, FloatV (101 / 2), IntV 30, NaN]),
      (''_phone'',
         [Str ''97412345678'', Str ''97412345678'', Str ''97455500001'', Str ''97455500002''])]"

definition by_day_ex :: frame where
  "by_day_ex =
     [(''day'', [DateV 19723, DateV 19724]),
      (''orders'', [IntV 1, IntV 2]),
      (''buyers'', [IntV 1, IntV 2]),
      (''revenue'', [FloatV (101 / 2), FloatV 100])]"


definition buyers_null_amount :: frame where
  "buyers_null_amount =
     [(''phone_number'', [Str ''12345678'']),
      (''order_id'', [IntV 7]),
      (''created_at'', [Str ''2024-01-01'']),
      (''item_name'', [Str ''WidgetA'']),
      (''quantity'', [NaN]),
      (''total_spent'', [NaN])]"

text \<open>
  The store after \<^verbatim>\<open>compute_kpis(buyers_ex, reach_ex, start=2024-01-02, item_filter="widgeta")\<close>
  was called on the store of the two tables: the two copies with their added columns, the
  frame left by the item filter, with the parsed dates, the frame left by the start
  bound, and the two results.
\<close>

definition heap_after_ex :: heap where
  "heap_after_ex =
    [buyers_ex, reach_ex,
     [(''phone_number'',
        [Str ''12345678'', IntV 12345678, Str ''55500001'', Str ''55500009'', Str ''55500002'']),
      (''order_id'', [IntV 1, IntV 2, IntV 3, IntV 4, IntV 5]),
      (''created_at'',
        [Str ''2024-01-02'', Str ''2024-01-01'', Str ''not-a-date'', Str ''2024-01-02'',
         Str ''2024-01-02'']),
      (''item_name'', [Str ''WidgetA'', Str ''WidgetB'', Str ''Widgeta XL'', Str ''WidgetA'', NaN]),
      (''quantity'', [IntV 2, IntV 1, IntV 1, IntV 1, NaN]),
      (''total_spent'', [IntV 100, FloatV (101 / 2), IntV 30, IntV 70, NaN]),
      (''_phone'',
        [Str ''97412345678'', Str ''97412345678'', Str ''97455500001'', Str ''97455500009'',
         Str ''97455500002''])],
     [(''phone_number'',
        [Str ''97412345678'', Str ''+974 5550 0001'', IntV 55500002, Str ''5550-0001'', NaN]),
      (''_phone'',
        [Str ''97412345678'', Str ''97455500001'', Str ''97455500002'', Str ''97455500001'',
         Str []])],
     [(''phone_number'', [Str ''12345678'', Str ''55500001'', Str ''55500009'']),
      (''order_id'', [IntV 1, IntV 3, IntV 4]),
      (''created_at'', [Timestamp 1704153600000000000, NaT, Timestamp 1704153600000000000]),
      (''item_name'', [Str ''WidgetA'', Str ''Widgeta XL'', Str ''WidgetA'']),
      (''quantity'', [IntV 2, IntV 1, IntV 1]),
      (''total_spent'', [IntV 100, IntV 30, IntV 70]),
      (''_phone'', [Str ''97412345678'', Str ''97455500001'', Str ''97455500009''])],
     [(''phone_number'', [Str ''12345678'', Str ''55500009'']),
      (''order_id'', [IntV 1, IntV 4]),
      (''created_at'', [Timestamp 1704153600000000000, Timestamp 1704153600000000000]),
      (''item_name'', [Str ''WidgetA'', Str ''WidgetA'']),
      (''quantity'', [IntV 2, IntV 1]),
      (''total_spent'', [IntV 100, IntV 70]),
      (''_phone'', [Str ''97412345678'', Str ''97455500009''])],
     [(''phone_number'', [Str ''12345678'']), (''order_id'', [IntV 1]),
      (''created_at'', [Timestamp 1704153600000000000]),
      (''item_name'', [Str ''WidgetA'']), (''quantity'', [IntV 2]),
      (''total_spent'', [IntV 100]), (''_phone'', [Str ''97412345678''])],
     [(''day'', [DateV 19724]), (''orders'', [IntV 1]),
      (''buyers'', [IntV 1]), (''revenue'', [FloatV 100])]]"

text \<open>Order lines for the item filter \<^verbatim>\<open>No.5\<close>.\<close>

definition buyers_dot :: frame where
  "buyers_dot =
     [(''phone_number'', [Str ''12345678'', Str ''12345678'', Str ''12345678'']),
      (''order_id'', [IntV 1, IntV 2, IntV 3]),
      (''created_at'', [Str ''2024-01-02'', Str ''2024-01-01'', Str ''2024-01-01'']),
      (''item_name'', [Str ''Serum No.5'', Str ''Serum No15'', Str ''WidgetA'']),
      (''quantity'', [IntV 2, IntV 1, IntV 1]),
      (''total_spent'', [IntV 100, IntV 70, IntV 5])]"

section \<open>Properties of the identity normalizer\<close>

lemma isdigit_974: "isdigit CHR ''9''" "isdigit CHR ''7''" "isdigit CHR ''4''"
  by (simp_all add: isdigit_def)

lemma startswith_prefix: "startswith s p = prefix p s"
  by (auto simp: startswith_def prefix_def take_is_prefix) (metis append_eq_conv_conj)

text \<open>
  Claim C1. For every input \<open>x\<close>, with \<open>s\<close> the digits of \<^verbatim>\<open>str(x)\<close> in order:
  \<^verbatim>\<open>norm_phone(x)\<close> is \<open>s\<close> when \<open>s\<close> begins with 974, else 974 followed by \<open>s\<close> when \<open>s\<close>
  has exactly 8 characters, else \<open>s\<close>. The result consists of digits only, and it is the
  empty string when \<^verbatim>\<open>str(x)\<close> has no digit. The function has no failing branch.
\<close>

theorem norm_phone_spec:
  "norm_phone fmt x =
     (let s = filter isdigit (py_str fmt x) in
      if prefix ''974'' s then s else if length s = 8 then ''974'' @ s else s)
   \<and> list_all isdigit (norm_phone fmt x)
   \<and> ((\<forall>ch \<in> set (py_str fmt x). \<not> isdigit ch) \<longrightarrow> norm_phone fmt x = [])"
  by (auto simp: norm_phone_def Let_def startswith_prefix list_all_iff isdigit_974 filter_empty_conv)

theorem norm_phone_spec_witness:
  "norm_phone plain_fmt (Str ''+974 5512-3456'') = ''97455123456''
   \<and> norm_phone plain_fmt (Str ''5512 3456'') = ''97455123456''
   \<and> norm_phone plain_fmt (Str ''12345'') = ''12345''
   \<and> filter isdigit (py_str plain_fmt NoneV) = [] \<and> norm_phone plain_fmt NoneV = []"
  using norm_phone_spec [of plain_fmt "Str ''+974 5512-3456''"]
        norm_phone_spec [of plain_fmt "Str ''5512 3456''"]
        norm_phone_spec [of plain_fmt "Str ''12345''"]
        norm_phone_spec [of plain_fmt NoneV]
  by (simp add: isdigit_def)

text \<open>
  Claim C4, as stated: every string \<open>d\<close> of exactly 8 digits is normalized to 974 followed
  by \<open>d\<close>. It fails for an 8-digit string that itself begins with 974, which the first
  test of \<^verbatim>\<open>norm_phone\<close> returns unchanged.
\<close>

theorem norm_phone_eight_digits_counterexample:
  "length ''97412345'' = 8 \<and> list_all isdigit ''97412345''
   \<and> norm_phone plain_fmt (Str ''97412345'') = ''97412345''
   \<and> norm_phone plain_fmt (Str ''97412345'') \<noteq> ''974'' @ ''97412345''"
  by (simp add: norm_phone_def startswith_def isdigit_def)

text \<open>
  Claim C4, amended: a string \<open>d\<close> of exactly 8 digits that does not begin with 974 is
  normalized to 974 followed by \<open>d\<close>; one that begins with 974 is returned unchanged.
\<close>

theorem norm_phone_eight_digits:
  "length d = 8 \<and> list_all isdigit d \<longrightarrow>
     norm_phone fmt (Str d) = (if startswith d ''974'' then d else ''974'' @ d)"
  by (auto simp: norm_phone_def Let_def list_all_iff)

theorem norm_phone_eight_digits_witness:
  "length ''12345678'' = 8 \<and> list_all isdigit ''12345678''
   \<and> norm_phone plain_fmt (Str ''12345678'') = ''97412345678''
   \<and> norm_phone plain_fmt (Str ''97412345'') = ''97412345''"
  using norm_phone_eight_digits [of "''12345678''" plain_fmt]
        norm_phone_eight_digits [of "''97412345''" plain_fmt]
  by (simp add: isdigit_def startswith_def)

text \<open>
  Claim C9. \<^verbatim>\<open>norm_phone\<close> is idempotent: normalizing its own result (a string) gives that
  result again, for every input. In particular a digit-only string that begins with 974
  is a fixed point.
\<close>

theorem norm_phone_idempotent:
  "norm_phone fmt (Str (norm_phone fmt x)) = norm_phone fmt x
   \<and> (list_all isdigit s \<and> startswith s ''974'' \<longrightarrow> norm_phone fmt (Str s) = s)"
  by (auto simp: norm_phone_def Let_def startswith_def list_all_iff isdigit_974)

theorem norm_phone_idempotent_witness:
  "list_all isdigit ''97455123456'' \<and> startswith ''97455123456'' ''974''
   \<and> norm_phone plain_fmt (Str ''97455123456'') = ''97455123456''
   \<and> norm_phone plain_fmt (Str (norm_phone plain_fmt (IntV 55123456))) = norm_phone plain_fmt (IntV 55123456)"
  using norm_phone_idempotent [of plain_fmt "IntV 55123456" "''97455123456''"]
  by (simp add: isdigit_def startswith_def)

section \<open>Frames: basic facts\<close>

lemma bindE_Inr [simp]: "bindE (Inr x) f = f x"
  by (simp add: bindE_def)

lemma bindE_Inl [simp]: "bindE (Inl e) f = Inl e"
  by (simp add: bindE_def)

lemma bindE_eq_Inr: "bindE m f = Inr y \<longleftrightarrow> (\<exists>x. m = Inr x \<and> f x = Inr y)"
  by (cases m) auto


lemma bindE_assoc: "bindE (bindE m f) g = bindE m (\<lambda>x. bindE (f x) g)"
  by (cases m) simp_all


lemma getitem_setitem_same: "getitem (setitem df c s) c = Inr s"
  by (induction df c s rule: setitem.induct) (auto simp: getitem_def)

lemma getitem_setitem_other: "c' \<noteq> c \<Longrightarrow> getitem (setitem df c s) c' = getitem df c'"
  by (induction df c s rule: setitem.induct) (auto simp: getitem_def)

lemma map_of_map_cols: "map_of (map (\<lambda>(c, s). (c, f s)) df) c = map_option f (map_of df c)"
  by (induction df) auto

lemma getitem_loc_mask: "getitem (loc_mask df m) c = map_sum id (take_mask m) (getitem df c)"
  by (simp add: getitem_def loc_mask_def map_of_map_cols split: option.splits)

lemma take_mask_Nil [simp]: "take_mask [] xs = []" "take_mask m [] = []"
  by (simp_all add: take_mask_def)

lemma take_mask_Cons [simp]:
  "take_mask (b # m) (x # xs) = (if b then x # take_mask m xs else take_mask m xs)"
  by (simp add: take_mask_def)

lemma take_mask_map: "take_mask m (map f xs) = map f (take_mask m xs)"
proof (induction m arbitrary: xs)
  case Nil
  then show ?case by simp
next
  case (Cons b m)
  then show ?case by (cases xs) auto
qed

lemma take_mask_filter: "take_mask (map P xs) xs = filter P xs"
  by (induction xs) auto

lemma set_take_mask: "set (take_mask m xs) \<subseteq> set xs"
  by (auto simp: take_mask_def dest: set_zip_rightD)

lemma list_all_take_mask: "list_all P xs \<Longrightarrow> list_all P (take_mask m xs)"
  using set_take_mask [of m xs] by (auto simp: list_all_iff)

lemma take_mask_take_mask:
  "take_mask (take_mask m1 m2) (take_mask m1 xs) = take_mask (map2 (\<and>) m1 m2) xs"
proof (induction m1 arbitrary: m2 xs)
  case Nil
  then show ?case by simp
next
  case (Cons b m1)
  show ?case
  proof (cases m2)
    case Nil
    then show ?thesis by simp
  next
    case m2: (Cons b2 m2')
    show ?thesis
    proof (cases xs)
      case Nil
      then show ?thesis by simp
    next
      case (Cons x xs')
      with m2 Cons.IH [of m2' xs'] show ?thesis by simp
    qed
  qed
qed

lemma loc_mask_loc_mask:
  "loc_mask (loc_mask df m1) (take_mask m1 m2) = loc_mask df (map2 (\<and>) m1 m2)"
  by (induction df) (auto simp: loc_mask_def take_mask_take_mask)

lemma map2_map_same: "map2 f (map g xs) (map h xs) = map (\<lambda>x. f (g x) (h x)) xs"
  by (induction xs) auto



lemma set_drop_dups_from: "set (drop_dups_from seen xs) = set xs - set seen"
  by (induction xs arbitrary: seen) auto

lemma distinct_drop_dups_from: "distinct (drop_dups_from seen xs)"
  by (induction xs arbitrary: seen) (auto simp: set_drop_dups_from)


lemma distinct_drop_duplicates: "distinct (drop_duplicates xs)"
  by (simp add: drop_duplicates_def distinct_drop_dups_from)

lemma count_list_distinct: "distinct xs \<Longrightarrow> count_list xs x = (if x \<in> set xs then 1 else 0)"
  by (induction xs) auto

lemma merge_rows_distinct:
  "distinct rkeys \<Longrightarrow> merge_rows lkeys rkeys xs = take_mask (map (\<lambda>k. k \<in> set rkeys) lkeys) xs"
proof (induction lkeys arbitrary: xs)
  case Nil
  then show ?case by (simp add: merge_rows_def take_mask_def)
next
  case (Cons k ks)
  show ?case
  proof (cases xs)
    case Nil
    then show ?thesis by (simp add: merge_rows_def take_mask_def)
  next
    case (Cons y ys)
    have "count_list rkeys k = (if k \<in> set rkeys then 1 else 0)"
      using Cons.prems by (rule count_list_distinct)
    with Cons.IH [OF Cons.prems, of ys] Cons show ?thesis
      by (simp add: merge_rows_def take_mask_def)
  qed
qed





section \<open>The stages of \<^verbatim>\<open>compute_kpis\<close>\<close>

lemma compute_kpis_InrD:
  assumes "compute_kpis fmt parse buyers reach start_date end_date item_filter = Inr (k, conv, by_day)"
  shows "\<exists>buyers1 reach1 buyers2 buyers3 reach_phone.
           add_phone fmt buyers = Inr buyers1 \<and> add_phone fmt reach = Inr reach1
         \<and> item_filter_stage item_filter buyers1 = Inr buyers2
         \<and> date_window parse start_date end_date buyers2 = Inr buyers3
         \<and> getitem reach1 ''_phone'' = Inr reach_phone
         \<and> match_conversions buyers3 reach1 = Inr conv
         \<and> aggregate conv (nunique reach_phone) = Inr k
         \<and> by_day_frame conv = Inr by_day"
  using assms unfolding compute_kpis_def match_and_aggregate_def bindE_eq_Inr by auto

lemma aggregate_InrD:
  assumes "aggregate conv n = Inr k"
  shows "\<exists>conv_phone spent orders quantity spent_sum quantity_sum.
           getitem conv ''_phone'' = Inr conv_phone
         \<and> getitem conv ''total_spent'' = Inr spent
         \<and> getitem conv ''order_id'' = Inr orders
         \<and> getitem conv ''quantity'' = Inr quantity
         \<and> series_sum 1 spent = Inr spent_sum
         \<and> series_sum 1 quantity = Inr quantity_sum
         \<and> reach_u k = n
         \<and> conv_u k = nunique conv_phone
         \<and> (if n \<noteq> 0 then ratio_pct (conv_u k) n else Inr (IntV 0)) = Inr (conv_rate k)
         \<and> total_revenue k = py_or spent_sum (IntV 0)
         \<and> total_orders k = nunique orders
         \<and> total_units k = py_or quantity_sum (IntV 0)
         \<and> (if total_orders k \<noteq> 0 then truediv (total_revenue k) (total_orders k) else Inr (IntV 0)) = Inr (aov k)
         \<and> repeat_count k = count_repeat conv_phone orders
         \<and> (if conv_u k \<noteq> 0 then ratio_pct (repeat_count k) (conv_u k) else Inr (IntV 0)) = Inr (repeat_rate k)"
  using assms unfolding aggregate_def bindE_eq_Inr Let_def by (elim exE conjE) auto




lemma re_compile_plain: "\<not> list_ex re_special pat \<Longrightarrow> re_compile pat = Inr (map Lit pat)"
  by (induction pat) (auto simp: re_special_def)

lemma match_here_prefix:
  "match_here (map Lit pat) s \<longleftrightarrow> prefix (map lower_char pat) (map lower_char s)"
proof (induction pat arbitrary: s)
  case Nil
  then show ?case by simp
next
  case (Cons p ps)
  then show ?case by (cases s) auto
qed

lemma re_search_contains_ci: "re_search (map Lit pat) s \<longleftrightarrow> contains_ci pat s"
proof (induction s)
  case Nil
  then show ?case by (cases pat) (simp_all add: contains_ci_def)
next
  case (Cons c cs)
  then show ?case
    by (simp add: match_here_prefix contains_ci_def sublist_Cons_right)
qed

lemma ge_mask_take: "ge_mask (take_mask m s) b = take_mask m (ge_mask s b)"
  by (simp add: ge_mask_def take_mask_map)

lemma le_mask_take: "le_mask (take_mask m s) b = take_mask m (le_mask s b)"
  by (simp add: le_mask_def take_mask_map)

lemma window_masks:
  "ge_mask s (to_datetime_scalar b) = map (in_window (Some b) None) s"
  "le_mask s (to_datetime_scalar b) = map (in_window None (Some b)) s"
  "map2 (\<and>) (ge_mask s (to_datetime_scalar b)) (le_mask s (to_datetime_scalar b')) =
     map (in_window (Some b) (Some b')) s"
  by (auto simp: ge_mask_def le_mask_def in_window_def map2_map_same split: cell.splits)

lemma date_window_eq:
  assumes "getitem buyers ''created_at'' = Inr col"
  shows "date_window parse start_date end_date buyers =
     (let parsed = to_datetime parse col; df = setitem buyers ''created_at'' parsed in
      if start_date = None \<and> end_date = None then Inr df
      else Inr (loc_mask df (map (in_window start_date end_date) parsed)))"
proof -
  let ?parsed = "to_datetime parse col"
  let ?df = "setitem buyers ''created_at'' ?parsed"
  have g: "getitem ?df ''created_at'' = Inr ?parsed"
    by (rule getitem_setitem_same)
  show ?thesis
  proof (cases start_date)
    case None
    then show ?thesis
      using assms g by (cases end_date)
        (simp_all add: date_window_def parse_created_at_def start_stage_def end_stage_def
          window_masks Let_def)
  next
    case (Some b)
    then show ?thesis
      using assms g
      by (cases end_date)
        (simp_all add: date_window_def parse_created_at_def start_stage_def end_stage_def
          window_masks [symmetric] getitem_loc_mask le_mask_take loc_mask_loc_mask Let_def)
  qed
qed





lemma strip_phone: "strip '' _phone'' = ''_phone''"
  by (simp add: strip_def isspace_def)

lemma by_day_frame_InrD:
  assumes "by_day_frame conv = Inr bd"
  shows "\<exists>created orders phones spent.
           getitem conv ''created_at'' = Inr created \<and> list_all is_datetime created
         \<and> getitem conv ''order_id'' = Inr orders
         \<and> getitem conv ''_phone'' = Inr phones
         \<and> getitem conv ''total_spent'' = Inr spent \<and> numeric_series spent
         \<and> bd = agg_by_day (map date_of created) orders phones spent"
  using assms
  by (auto simp: by_day_frame_def bindE_eq_Inr dt_date_def Let_def strip_phone
      getitem_setitem_same getitem_setitem_other split: if_splits)

lemma by_day_frame_eq:
  assumes "getitem conv ''created_at'' = Inr created" "list_all is_datetime created"
    and "getitem conv ''order_id'' = Inr orders"
    and "getitem conv ''_phone'' = Inr phones"
    and "getitem conv ''total_spent'' = Inr spent" "numeric_series spent"
  shows "by_day_frame conv = Inr (agg_by_day (map date_of created) orders phones spent)"
  using assms
  by (simp add: by_day_frame_def dt_date_def Let_def strip_phone
      getitem_setitem_same getitem_setitem_other)



lemma day_keys_drop_nat:
  "day_keys (take_mask (map (\<lambda>c. c \<noteq> NaT) created) (map date_of created)) =
   day_keys (map date_of created)"
proof -
  have "concat (map (\<lambda>c. case c of DateV d \<Rightarrow> [d] | _ \<Rightarrow> [])
           (take_mask (map (\<lambda>c. c \<noteq> NaT) created) (map date_of created))) =
        concat (map (\<lambda>c. case c of DateV d \<Rightarrow> [d] | _ \<Rightarrow> []) (map date_of created))"
    by (induction created) auto
  then show ?thesis by (simp add: day_keys_def)
qed

lemma rows_where_drop_nat:
  "rows_where (take_mask (map (\<lambda>c. c \<noteq> NaT) created) (map date_of created)) (DateV d)
     (take_mask (map (\<lambda>c. c \<noteq> NaT) created) xs) =
   rows_where (map date_of created) (DateV d) xs"
proof -
  have "map2 (\<and>) (map (\<lambda>c. c \<noteq> NaT) created) (map (\<lambda>c. c = DateV d) (map date_of created)) =
        map (\<lambda>c. c = DateV d) (map date_of created)"
    by (induction created) auto
  then show ?thesis
    by (simp add: rows_where_def take_mask_map [symmetric] take_mask_take_mask)
qed

lemma agg_by_day_drop_nat:
  "agg_by_day (take_mask (map (\<lambda>c. c \<noteq> NaT) created) (map date_of created))
     (take_mask (map (\<lambda>c. c \<noteq> NaT) created) orders)
     (take_mask (map (\<lambda>c. c \<noteq> NaT) created) phones)
     (take_mask (map (\<lambda>c. c \<noteq> NaT) created) spent) =
   agg_by_day (map date_of created) orders phones spent"
  by (simp add: agg_by_day_def day_keys_drop_nat rows_where_drop_nat)

lemma by_day_frame_drop_nat:
  assumes "by_day_frame conv = Inr bd" and c: "getitem conv ''created_at'' = Inr created"
  shows "by_day_frame (loc_mask conv (map (\<lambda>c. c \<noteq> NaT) created)) = Inr bd"
proof -
  let ?m = "map (\<lambda>c. c \<noteq> NaT) created"
  from by_day_frame_InrD [OF assms(1)] c obtain orders phones spent where
    d: "list_all is_datetime created"
    and o: "getitem conv ''order_id'' = Inr orders"
    and p: "getitem conv ''_phone'' = Inr phones"
    and s: "getitem conv ''total_spent'' = Inr spent" and n: "numeric_series spent"
    and bd: "bd = agg_by_day (map date_of created) orders phones spent"
    by auto
  have "by_day_frame (loc_mask conv ?m) =
        Inr (agg_by_day (map date_of (take_mask ?m created)) (take_mask ?m orders)
              (take_mask ?m phones) (take_mask ?m spent))"
    using c d o p s n
    by (intro by_day_frame_eq) (simp_all add: getitem_loc_mask list_all_take_mask numeric_series_def)
  then show ?thesis
    by (simp add: bd take_mask_map [symmetric] agg_by_day_drop_nat)
qed

lemma to_datetime_unparseable:
  "i < length col \<Longrightarrow> parse col (col ! i) = None \<Longrightarrow> to_datetime parse col ! i = NaT"
  by (simp add: to_datetime_def)











section \<open>Example runs\<close>

lemma example_eval:
  "compute_kpis plain_fmt iso_parse buyers_ex reach_ex None None None =
     Inr (kpis_ex, conv_ex, by_day_ex)"
  by code_simp




section \<open>Conversion rate\<close>




section \<open>Ratios with a zero denominator\<close>




section \<open>Total revenue and total units\<close>

text \<open>
  What the two totals are, whenever \<^verbatim>\<open>compute_kpis\<close> returns: with at least one amount
  present among the converted records, the sum of the amounts present (the integer 0
  when that sum is zero); with none, NaN and not 0, since \<^verbatim>\<open>NaN or 0\<close> is NaN.
\<close>

lemma sum_or_zero:
  assumes "series_sum 1 s = Inr x"
  shows "py_or x (IntV 0) =
           (if list_all isna s then NaN
            else if sum_skipna s = 0 then IntV 0 else FloatV (sum_skipna s))"
proof -
  have "length (filter (\<lambda>c. \<not> isna c) s) < 1 \<longleftrightarrow> list_all isna s"
    by (simp add: list_all_iff filter_empty_conv)
  with assms show ?thesis
    by (auto simp: series_sum_def py_or_def split: if_splits)
qed

lemma totals_value:
  "compute_kpis fmt parse buyers reach start_date end_date item_filter = Inr (k, conv, by_day) \<longrightarrow>
     (\<exists>spent quantity.
        getitem conv ''total_spent'' = Inr spent \<and> getitem conv ''quantity'' = Inr quantity
      \<and> total_revenue k =
          (if list_all isna spent then NaN
           else if sum_skipna spent = 0 then IntV 0 else FloatV (sum_skipna spent))
      \<and> total_units k =
          (if list_all isna quantity then NaN
           else if sum_skipna quantity = 0 then IntV 0 else FloatV (sum_skipna quantity)))"
proof
  assume a: "compute_kpis fmt parse buyers reach start_date end_date item_filter = Inr (k, conv, by_day)"
  from compute_kpis_InrD [OF a] obtain n where g: "aggregate conv n = Inr k"
    by blast
  from aggregate_InrD [OF g] obtain spent quantity spent_sum quantity_sum where
    "getitem conv ''total_spent'' = Inr spent" "getitem conv ''quantity'' = Inr quantity"
    "series_sum 1 spent = Inr spent_sum" "series_sum 1 quantity = Inr quantity_sum"
    "total_revenue k = py_or spent_sum (IntV 0)" "total_units k = py_or quantity_sum (IntV 0)"
    by blast
  then show "\<exists>spent quantity.
        getitem conv ''total_spent'' = Inr spent \<and> getitem conv ''quantity'' = Inr quantity
      \<and> total_revenue k =
          (if list_all isna spent then NaN
           else if sum_skipna spent = 0 then IntV 0 else FloatV (sum_skipna spent))
      \<and> total_units k =
          (if list_all isna quantity then NaN
           else if sum_skipna quantity = 0 then IntV 0 else FloatV (sum_skipna quantity))"
    by (simp add: sum_or_zero)
qed

lemma totals_value_witness:
  "compute_kpis plain_fmt iso_parse buyers_ex reach_ex None None None =
     Inr (kpis_ex, conv_ex, by_day_ex)
   \<and> getitem conv_ex ''total_spent'' = Inr [IntV 100, FloatV (101 / 2), IntV 30, NaN]
   \<and> sum_skipna [IntV 100, FloatV (101 / 2), IntV 30, NaN] = 361 / 2
   \<and> total_revenue kpis_ex = FloatV (361 / 2)
   \<and> getitem conv_ex ''quantity'' = Inr [IntV 2, IntV 1, IntV 1, NaN]
   \<and> sum_skipna [IntV 2, IntV 1, IntV 1, NaN] = 4
   \<and> total_units kpis_ex = FloatV 4"
proof -
  have "getitem conv_ex ''total_spent'' = Inr [IntV 100, FloatV (101 / 2), IntV 30, NaN]
   \<and> sum_skipna [IntV 100, FloatV (101 / 2), IntV 30, NaN] = 361 / 2
   \<and> getitem conv_ex ''quantity'' = Inr [IntV 2, IntV 1, IntV 1, NaN]
   \<and> sum_skipna [IntV 2, IntV 1, IntV 1, NaN] = 4"
    by code_simp
  with totals_value [THEN mp, OF example_eval] example_eval show ?thesis
    by auto
qed

text \<open>
  Claim C2 says that total revenue and total units are 0 when the converted set is empty
  or all of its values are null. The code gives NaN in both cases: for the buyer of
  scenario 2, who is not in the reach, and for a converted order whose amount and
  quantity are missing.
\<close>

theorem totals_nan_when_empty_or_null:
  "map_sum id (\<lambda>(k, conv, by_day). (getitem conv ''total_spent'', total_revenue k, total_units k))
     (compute_kpis plain_fmt iso_parse buyers_unmatched reach_ex None None None) =
       Inr (Inr [], NaN, NaN)
   \<and> map_sum id (\<lambda>(k, conv, by_day). (getitem conv ''total_spent'', total_revenue k, total_units k))
     (compute_kpis plain_fmt iso_parse buyers_null_amount reach_ex None None None) =
       Inr (Inr [NaN], NaN, NaN)
   \<and> NaN \<noteq> IntV 0 \<and> NaN \<noteq> FloatV 0"
  by code_simp


section \<open>Item filter\<close>

text \<open>
  For a filter string without special characters of the regular-expression syntax the
  filter stage keeps exactly the rows whose item name is a string that contains the
  filter, compared case-insensitively; a row whose item name is missing, or not a
  string, is dropped.
\<close>

lemma re_search_contains_ci_fun: "re_search (map Lit pat) = contains_ci pat"
  by (rule ext) (rule re_search_contains_ci)

lemma item_filter_plain:
  "pat \<noteq> [] \<and> \<not> list_ex re_special pat \<and> getitem buyers ''item_name'' = Inr col \<longrightarrow>
     item_filter_stage (Some pat) buyers =
       Inr (loc_mask buyers (map (\<lambda>c. case c of Str v \<Rightarrow> contains_ci pat v | _ \<Rightarrow> False) col))"
  by (auto simp: item_filter_stage_def str_contains_def re_compile_plain re_search_contains_ci_fun)

lemma item_filter_plain_witness:
  "''widgeta'' \<noteq> [] \<and> \<not> list_ex re_special ''widgeta''
   \<and> getitem buyers_ex ''item_name'' =
       Inr [Str ''WidgetA'', Str ''WidgetB'', Str ''Widgeta XL'', Str ''WidgetA'', NaN]
   \<and> item_filter_stage (Some ''widgeta'') buyers_ex =
       Inr (loc_mask buyers_ex [True, False, True, True, False])"
proof -
  have h: "''widgeta'' \<noteq> [] \<and> \<not> list_ex re_special ''widgeta''
   \<and> getitem buyers_ex ''item_name'' =
       Inr [Str ''WidgetA'', Str ''WidgetB'', Str ''Widgeta XL'', Str ''WidgetA'', NaN]"
    by code_simp
  have m: "map (\<lambda>c. case c of Str v \<Rightarrow> contains_ci ''widgeta'' v | _ \<Rightarrow> False)
      [Str ''WidgetA'', Str ''WidgetB'', Str ''Widgeta XL'', Str ''WidgetA'', NaN] =
      [True, False, True, True, False]"
    by code_simp
  from item_filter_plain [THEN mp, OF h] h m show ?thesis
    by simp
qed

text \<open>
  Claim C3 says that for every filter string the stage keeps exactly the rows whose item
  name contains that string. The code passes the string to \<^verbatim>\<open>str.contains\<close> as a regular
  expression: the filter \<^verbatim>\<open>No.5\<close> keeps the row \<^verbatim>\<open>Serum No15\<close>, which does not contain it.
\<close>

theorem item_filter_regex_dot:
  "item_filter_stage (Some ''No.5'') buyers_dot = Inr (loc_mask buyers_dot [True, True, False])
   \<and> getitem buyers_dot ''item_name'' = Inr [Str ''Serum No.5'', Str ''Serum No15'', Str ''WidgetA'']
   \<and> getitem (loc_mask buyers_dot [True, True, False]) ''item_name'' =
       Inr [Str ''Serum No.5'', Str ''Serum No15'']
   \<and> contains_ci ''No.5'' ''Serum No.5''
   \<and> \<not> contains_ci ''No.5'' ''Serum No15''"
  by code_simp


section \<open>Unparseable dates\<close>

text \<open>
  Claim C6. A \<^verbatim>\<open>created_at\<close> cell that cannot be parsed becomes \<open>NaT\<close>, on which both
  comparisons, with the start and with the end bound, are false. With no date bound
  the date window keeps every row, with the parsed column in place. With a start or an
  end bound it keeps exactly the rows \<open>in_window\<close>, which \<open>NaT\<close> is not: the
  \<^verbatim>\<open>created_at\<close> column of the result holds the parsed cells that are in the window. In the
  daily breakdown the rows whose timestamp is \<open>NaT\<close> belong to no group: the breakdown is
  the same with these rows removed, and its \<^verbatim>\<open>day\<close> column lists dates only.
\<close>

theorem unparseable_created_at:
  "(i < length col \<and> parse col (col ! i) = None \<longrightarrow> to_datetime parse col ! i = NaT)
   \<and> (getitem buyers ''created_at'' = Inr col \<longrightarrow>
        (let parsed = to_datetime parse col; df = setitem buyers ''created_at'' parsed in
           (start_date = None \<and> end_date = None \<longrightarrow>
              date_window parse start_date end_date buyers = Inr df)
         \<and> (start_date \<noteq> None \<or> end_date \<noteq> None \<longrightarrow>
              date_window parse start_date end_date buyers =
                Inr (loc_mask df (map (in_window start_date end_date) parsed))
            \<and> getitem (loc_mask df (map (in_window start_date end_date) parsed)) ''created_at'' =
                Inr (filter (in_window start_date end_date) parsed)
            \<and> \<not> in_window start_date end_date NaT)))
   \<and> (by_day_frame conv = Inr by_day \<and> getitem conv ''created_at'' = Inr created \<longrightarrow>
        by_day_frame (loc_mask conv (map (\<lambda>c. c \<noteq> NaT) created)) = Inr by_day
      \<and> getitem by_day ''day'' = Inr (map DateV (day_keys (map date_of created)))
      \<and> NaT \<notin> set (map DateV (day_keys (map date_of created))))
   \<and> ge_mask [NaT] t = [False] \<and> le_mask [NaT] t = [False]"
proof (intro conjI impI)
  show "to_datetime parse col ! i = NaT" if "i < length col \<and> parse col (col ! i) = None"
    using that by (simp add: to_datetime_unparseable)
next
  assume g: "getitem buyers ''created_at'' = Inr col"
  show "let parsed = to_datetime parse col; df = setitem buyers ''created_at'' parsed in
           (start_date = None \<and> end_date = None \<longrightarrow>
              date_window parse start_date end_date buyers = Inr df)
         \<and> (start_date \<noteq> None \<or> end_date \<noteq> None \<longrightarrow>
              date_window parse start_date end_date buyers =
                Inr (loc_mask df (map (in_window start_date end_date) parsed))
            \<and> getitem (loc_mask df (map (in_window start_date end_date) parsed)) ''created_at'' =
                Inr (filter (in_window start_date end_date) parsed)
            \<and> \<not> in_window start_date end_date NaT)"
    using date_window_eq [OF g, of parse start_date end_date]
    by (auto simp: Let_def getitem_loc_mask getitem_setitem_same take_mask_filter in_window_def)
next
  assume a: "by_day_frame conv = Inr by_day \<and> getitem conv ''created_at'' = Inr created"
  then show "by_day_frame (loc_mask conv (map (\<lambda>c. c \<noteq> NaT) created)) = Inr by_day"
    by (simp add: by_day_frame_drop_nat)
  from a by_day_frame_InrD [of conv by_day]
  show "getitem by_day ''day'' = Inr (map DateV (day_keys (map date_of created)))"
    by (auto simp: agg_by_day_def getitem_def Let_def)
  show "NaT \<notin> set (map DateV (day_keys (map date_of created)))"
    by auto
next
  show "ge_mask [NaT] t = [False]"
    by (simp add: ge_mask_def)
  show "le_mask [NaT] t = [False]"
    by (simp add: le_mask_def)
qed

theorem unparseable_created_at_witness:
  "getitem buyers_ex ''created_at'' =
     Inr [Str ''2024-01-02'', Str ''2024-01-01'', Str ''not-a-date'', Str ''2024-01-02'', Str ''2024-01-02'']
   \<and> iso_parse [Str ''2024-01-02'', Str ''2024-01-01'', Str ''not-a-date'', Str ''2024-01-02'', Str ''2024-01-02'']
        (Str ''not-a-date'') = None
   \<and> to_datetime iso_parse
        [Str ''2024-01-02'', Str ''2024-01-01'', Str ''not-a-date'', Str ''2024-01-02'', Str ''2024-01-02''] =
        [Timestamp 1704153600000000000, Timestamp 1704067200000000000, NaT,
         Timestamp 1704153600000000000, Timestamp 1704153600000000000]
   \<and> date_window iso_parse None None buyers_ex =
        Inr (setitem buyers_ex ''created_at''
               [Timestamp 1704153600000000000, Timestamp 1704067200000000000, NaT,
                Timestamp 1704153600000000000, Timestamp 1704153600000000000])
   \<and> date_window iso_parse (Some (BDate 19723)) None buyers_ex =
        Inr (loc_mask
               (setitem buyers_ex ''created_at''
                 [Timestamp 1704153600000000000, Timestamp 1704067200000000000, NaT,
                  Timestamp 1704153600000000000, Timestamp 1704153600000000000])
               [True, True, False, True, True])
   \<and> map_sum id (\<lambda>df. getitem df ''order_id'')
        (date_window iso_parse (Some (BDate 19723)) None buyers_ex) =
        Inr (Inr [IntV 1, IntV 2, IntV 4, IntV 5])
   \<and> by_day_frame conv_ex = Inr by_day_ex
   \<and> by_day_frame (loc_mask conv_ex [True, True, False, True]) = Inr by_day_ex"
proof -
  let ?col = "[Str ''2024-01-02'', Str ''2024-01-01'', Str ''not-a-date'', Str ''2024-01-02'', Str ''2024-01-02'']"
  let ?parsed = "[Timestamp 1704153600000000000, Timestamp 1704067200000000000, NaT,
      Timestamp 1704153600000000000, Timestamp 1704153600000000000]"
  let ?created = "[Timestamp 1704153600000000000, Timestamp 1704067200000000000, NaT,
      Timestamp 1704153600000000000]"
  have g: "getitem buyers_ex ''created_at'' = Inr ?col"
    by code_simp
  have p: "2 < length ?col \<and> iso_parse ?col (?col ! 2) = None"
    by code_simp
  have d: "to_datetime iso_parse ?col = ?parsed"
    by code_simp
  have w: "map (in_window (Some (BDate 19723)) None) ?parsed = [True, True, False, True, True]"
    by code_simp
  have b: "by_day_frame conv_ex = Inr by_day_ex \<and> getitem conv_ex ''created_at'' = Inr ?created"
    by code_simp
  have m: "map (\<lambda>c. c \<noteq> NaT) ?created = [True, True, False, True]"
    by simp
  have o: "map_sum id (\<lambda>df. getitem df ''order_id'')
        (date_window iso_parse (Some (BDate 19723)) None buyers_ex) =
        Inr (Inr [IntV 1, IntV 2, IntV 4, IntV 5])"
    by code_simp
  note t = unparseable_created_at [of 2 ?col iso_parse buyers_ex "Some (BDate 19723)" None
      conv_ex by_day_ex ?created 0]
  note t0 = unparseable_created_at [of 2 ?col iso_parse buyers_ex None None
      conv_ex by_day_ex ?created 0]
  from t p have 1: "to_datetime iso_parse ?col ! 2 = NaT"
    by blast
  from t [THEN conjunct2, THEN conjunct1, THEN mp, OF g, unfolded Let_def d w]
  have 2: "date_window iso_parse (Some (BDate 19723)) None buyers_ex =
        Inr (loc_mask (setitem buyers_ex ''created_at'' ?parsed) [True, True, False, True, True])"
    by simp
  from t0 [THEN conjunct2, THEN conjunct1, THEN mp, OF g, unfolded Let_def d]
  have 3: "date_window iso_parse None None buyers_ex = Inr (setitem buyers_ex ''created_at'' ?parsed)"
    by simp
  from t b have 4: "by_day_frame (loc_mask conv_ex (map (\<lambda>c. c \<noteq> NaT) ?created)) = Inr by_day_ex"
    by blast
  from g p b d o 1 2 3 4 [unfolded m] show ?thesis
    by simp
qed


section \<open>Daily breakdown\<close>




section \<open>The caller's tables\<close>

lemma frame_bind:
  assumes "frame_rule n m Q" and "\<And>x. Q x \<Longrightarrow> frame_rule n (f x) R"
  shows "frame_rule n (bindH m f) R"
  unfolding frame_rule_def
proof (intro allI impI)
  fix h :: heap assume n: "n \<le> length h"
  obtain r h1 where m: "m h = (r, h1)" by (cases "m h")
  with assms(1) n have 1: "n \<le> length h1" "take n h1 = take n h" "case r of Inl e \<Rightarrow> True | Inr x \<Rightarrow> Q x"
    by (auto simp: frame_rule_def)
  show "case bindH m f h of (r, h') \<Rightarrow> n \<le> length h' \<and> take n h' = take n h \<and> (case r of Inl e \<Rightarrow> True | Inr x \<Rightarrow> R x)"
  proof (cases r)
    case (Inl e)
    with m 1 show ?thesis by (simp add: bindH_def)
  next
    case (Inr x)
    with 1 have "Q x" by simp
    from assms(2) [OF this] 1(1) have "case f x h1 of (r, h') \<Rightarrow> n \<le> length h' \<and> take n h' = take n h1 \<and> (case r of Inl e \<Rightarrow> True | Inr x \<Rightarrow> R x)"
      by (simp add: frame_rule_def)
    with m Inr 1 show ?thesis by (auto simp: bindH_def)
  qed
qed

lemma frame_return: "Q x \<Longrightarrow> frame_rule n (returnH x) Q"
  by (simp add: frame_rule_def returnH_def)

lemma frame_liftE: "frame_rule n (liftE r) (\<lambda>x. True)"
  by (simp add: frame_rule_def liftE_def split: sum.splits)

lemma frame_read: "frame_rule n (df_read r) (\<lambda>x. True)"
  by (simp add: frame_rule_def df_read_def)

lemma frame_getitem: "frame_rule n (df_getitem r c) (\<lambda>x. True)"
  by (simp add: frame_rule_def df_getitem_def split: sum.splits)

lemma frame_new: "frame_rule n (df_new f) (\<lambda>r. n \<le> r)"
  by (simp add: frame_rule_def df_new_def)

lemma frame_copy: "frame_rule n (df_copy r) (\<lambda>r. n \<le> r)"
  unfolding df_copy_def by (rule frame_bind [OF frame_read frame_new])

lemma frame_loc: "frame_rule n (df_loc r m) (\<lambda>r. n \<le> r)"
  unfolding df_loc_def by (rule frame_bind [OF frame_read frame_new])

lemma frame_setitem: "n \<le> r \<Longrightarrow> frame_rule n (df_setitem r c s) (\<lambda>x. True)"
  by (simp add: frame_rule_def df_setitem_def)

lemma frame_compute_kpis:
  "frame_rule n (compute_kpis_heap fmt parse buyers reach start_date end_date item_filter) (\<lambda>x. True)"
  unfolding compute_kpis_heap_def
  apply (rule frame_bind [OF frame_copy])
  apply (rule frame_bind [OF frame_copy])
  apply (rule frame_bind [OF frame_getitem])
  apply (rule frame_bind [OF frame_setitem], assumption)
  apply (rule frame_bind [OF frame_getitem])
  apply (rule frame_bind [OF frame_setitem], assumption)
  apply (rule frame_bind [where Q = "\<lambda>r. n \<le> r"])
   apply (auto split: option.splits intro!: frame_return frame_loc
      frame_bind [OF frame_getitem] frame_bind [OF frame_liftE])[1]
  apply (rule frame_bind [OF frame_getitem])
  apply (rule frame_bind [OF frame_setitem], assumption)
  apply (rule frame_bind [where Q = "\<lambda>r. n \<le> r"])
   apply (auto split: option.splits intro!: frame_return frame_loc
      frame_bind [OF frame_getitem])[1]
  apply (rule frame_bind [where Q = "\<lambda>r. n \<le> r"])
   apply (auto split: option.splits intro!: frame_return frame_loc
      frame_bind [OF frame_getitem])[1]
  apply (rule frame_bind [OF frame_read])
  apply (rule frame_bind [OF frame_read])
  apply (rule frame_bind [OF frame_liftE])
  apply (auto intro!: frame_bind [OF frame_new] frame_return)
  done

lemma bindH_simps [simp]:
  "bindH (returnH x) f1 h = f1 x h"
  "bindH (liftE (Inr y)) f2 h = f2 y h"
  "bindH (liftE (Inl e)) f3 h = (Inl e, h)"
  "bindH (df_read r) f4 h = f4 (h ! r) h"
  "bindH (df_new fr) f5 h = f5 (length h) (h @ [fr])"
  "bindH (df_setitem r c s) f6 h = f6 () (h[r := setitem (h ! r) c s])"
  by (simp_all add: bindH_def returnH_def liftE_def df_read_def df_new_def df_setitem_def)

lemma bindH_getitem:
  "bindH (df_getitem r c) f h = (case getitem (h ! r) c of Inl e \<Rightarrow> (Inl e, h) | Inr s \<Rightarrow> f s h)"
  by (simp add: bindH_def df_getitem_def split: sum.splits)

lemma bindH_liftE:
  "bindH (liftE r) f h = (case r of Inl e \<Rightarrow> (Inl e, h) | Inr x \<Rightarrow> f x h)"
  by (simp add: bindH_def liftE_def split: sum.splits)

lemma bindH_assoc: "bindH (bindH m f) g = bindH m (\<lambda>x. bindH (f x) g)"
  by (rule ext) (simp add: bindH_def split: prod.splits sum.splits)

lemma compute_kpis_heap_refines:
  "buyers < length h \<and> reach < length h
   \<and> compute_kpis_heap fmt parse buyers reach start_date end_date item_filter h = (res, h') \<longrightarrow>
     map_sum id (\<lambda>(k, c, d). (k, h' ! c, h' ! d)) res =
       compute_kpis fmt parse (h ! buyers) (h ! reach) start_date end_date item_filter"
  unfolding compute_kpis_heap_def compute_kpis_def df_copy_def df_loc_def bindH_assoc
    add_phone_def item_filter_stage_def date_window_def parse_created_at_def
    start_stage_def end_stage_def
  by (auto simp: bindH_assoc bindE_assoc bindH_getitem bindH_liftE nth_append getitem_setitem_same getitem_setitem_other
      getitem_loc_mask returnH_def
      split: sum.splits option.splits if_splits)


text \<open>
  Claim C10. A call of \<^verbatim>\<open>compute_kpis\<close> on the caller's references \<open>buyers\<close> and \<open>reach\<close>
  leaves every frame of the store as it was before the call, the two argument tables
  among them, whether it returns or raises: all it writes goes to objects allocated
  during the call. What it returns is what the function on frames as values computes
  from the two tables.
\<close>

theorem compute_kpis_keeps_arguments:
  "buyers < length h \<and> reach < length h
   \<and> compute_kpis_heap fmt parse buyers reach start_date end_date item_filter h = (res, h') \<longrightarrow>
     length h \<le> length h' \<and> take (length h) h' = h
   \<and> h' ! buyers = h ! buyers \<and> h' ! reach = h ! reach
   \<and> map_sum id (\<lambda>(k, c, d). (k, h' ! c, h' ! d)) res =
       compute_kpis fmt parse (h ! buyers) (h ! reach) start_date end_date item_filter"
proof
  assume a: "buyers < length h \<and> reach < length h
   \<and> compute_kpis_heap fmt parse buyers reach start_date end_date item_filter h = (res, h')"
  from frame_compute_kpis [of "length h" fmt parse buyers reach start_date end_date item_filter] a
  have 1: "length h \<le> length h'" and 2: "take (length h) h' = h"
    by (auto simp: frame_rule_def)
  have "h' ! i = h ! i" if "i < length h" for i
    using that 2 by (metis nth_take)
  with a 1 2 compute_kpis_heap_refines [of buyers h reach fmt parse start_date end_date item_filter res h']
  show "length h \<le> length h' \<and> take (length h) h' = h
   \<and> h' ! buyers = h ! buyers \<and> h' ! reach = h ! reach
   \<and> map_sum id (\<lambda>(k, c, d). (k, h' ! c, h' ! d)) res =
       compute_kpis fmt parse (h ! buyers) (h ! reach) start_date end_date item_filter"
    by simp
qed

lemma example_eval_heap:
  "compute_kpis_heap plain_fmt iso_parse 0 1 (Some (BDate 19724)) None (Some ''widgeta'')
     [buyers_ex, reach_ex] =
   (Inr (\<lparr>reach_u = 4, conv_u = 1, conv_rate = FloatV 25,
          total_revenue = FloatV 100, total_orders = 1,
          total_units = FloatV 2, aov = FloatV 100, repeat_count = 0,
          repeat_rate = FloatV 0\<rparr>, 6, 7),
    heap_after_ex)"
  by code_simp

theorem compute_kpis_keeps_arguments_witness:
  "compute_kpis_heap plain_fmt iso_parse 0 1 (Some (BDate 19724)) None (Some ''widgeta'')
     [buyers_ex, reach_ex] =
   (Inr (\<lparr>reach_u = 4, conv_u = 1, conv_rate = FloatV 25,
          total_revenue = FloatV 100, total_orders = 1,
          total_units = FloatV 2, aov = FloatV 100, repeat_count = 0,
          repeat_rate = FloatV 0\<rparr>, 6, 7),
    heap_after_ex)
   \<and> take 2 heap_after_ex = [buyers_ex, reach_ex]
   \<and> heap_after_ex ! 0 = buyers_ex \<and> heap_after_ex ! 1 = reach_ex
   \<and> getitem (heap_after_ex ! 0) ''_phone'' = Inl (KeyError ''_phone'')
   \<and> getitem (heap_after_ex ! 2) ''_phone'' =
       Inr [Str ''97412345678'', Str ''97412345678'', Str ''97455500001'', Str ''97455500009'',
            Str ''97455500002'']"
proof -
  have l: "0 < length [buyers_ex, reach_ex] \<and> 1 < length [buyers_ex, reach_ex]
    \<and> compute_kpis_heap plain_fmt iso_parse 0 1 (Some (BDate 19724)) None (Some ''widgeta'')
         [buyers_ex, reach_ex] =
       (Inr (\<lparr>reach_u = 4, conv_u = 1, conv_rate = FloatV 25,
          total_revenue = FloatV 100, total_orders = 1,
          total_units = FloatV 2, aov = FloatV 100, repeat_count = 0,
          repeat_rate = FloatV 0\<rparr>, 6, 7),
        heap_after_ex)"
    using example_eval_heap by simp
  note c = compute_kpis_keeps_arguments [THEN mp, OF l]
  from c have 1: "take 2 heap_after_ex = [buyers_ex, reach_ex]"
    by (simp add: numeral_2_eq_2)
  from c have 2: "heap_after_ex ! 0 = buyers_ex \<and> heap_after_ex ! 1 = reach_ex"
    by simp
  have 3: "getitem (heap_after_ex ! 0) ''_phone'' = Inl (KeyError ''_phone'')
    \<and> getitem (heap_after_ex ! 2) ''_phone'' =
       Inr [Str ''97412345678'', Str ''97412345678'', Str ''97455500001'', Str ''97455500009'',
            Str ''97455500002'']"
    by code_simp
  from example_eval_heap 1 2 3 show ?thesis
    by simp
qed

end
